theory Spec2Isabelle
  imports Complex_Main "HOL-Library.Sublist" "HOL-Library.List_Lexorder" "HOL-Library.Char_ord"
    "HOL-Library.Multiset"
begin

section \<open>Python primitives used by the sources\<close>

text \<open>
  Python strings are modelled as \<open>string\<close>, Python floats by the real number they
  denote, Python's unbounded integers as \<open>int\<close>. Exceptions are values of the type
  \<open>error\<close>; a function that can raise returns \<open>error + 'a\<close> with \<open>Inl\<close> the
  exception. Output written with \<open>print\<close> is not part of the model.
\<close>

datatype error =
    ValueError string
  | FileNotFoundError string
  | ZeroDivisionError
  | ColumnNotFoundError string
  | UnboundLocalError string
  | AttributeError string
  | IndexError
  | PineconeApiException nat
  | OtherException string

definition newline :: string where
  "newline = [CHR 0x0A]"

text \<open>\<open>str(n)\<close> for an integer: its decimal digits, with a minus sign when negative.\<close>

definition digit_char :: "nat \<Rightarrow> char" where
  "digit_char d = ''0123456789'' ! d"

function str_nat :: "nat \<Rightarrow> string" where
  "str_nat n = (if n < 10 then [digit_char n] else str_nat (n div 10) @ [digit_char (n mod 10)])"
  by pat_completeness auto
termination
  by (relation "measure (\<lambda>n. n)") auto

declare str_nat.simps [simp del]

definition str_int :: "int \<Rightarrow> string" where
  "str_int i = (if i < 0 then CHR ''-'' # str_nat (nat (- i)) else str_nat (nat i))"

text \<open>\<open>sep.join(xs)\<close>.\<close>

fun str_join :: "string \<Rightarrow> string list \<Rightarrow> string" where
  "str_join sep [] = []"
| "str_join sep [x] = x"
| "str_join sep (x # y # ys) = x @ sep @ str_join sep (y # ys)"

text \<open>\<open>s.startswith(p)\<close>, \<open>s.startswith((p1, ..., pn))\<close> and \<open>s.endswith(p)\<close>.\<close>

definition startswith :: "string \<Rightarrow> string \<Rightarrow> bool" where
  "startswith s p = prefix p s"

definition startswith_any :: "string \<Rightarrow> string list \<Rightarrow> bool" where
  "startswith_any s ps = list_ex (startswith s) ps"

definition endswith :: "string \<Rightarrow> string \<Rightarrow> bool" where
  "endswith s p = suffix p s"

text \<open>The slice \<open>xs[:k]\<close>: a negative \<open>k\<close> counts from the end of the list.\<close>

definition slice_to :: "'a list \<Rightarrow> int \<Rightarrow> 'a list" where
  "slice_to xs k = (if k < 0 then take (nat (int (length xs) + k)) xs else take (nat k) xs)"


section \<open>rag-query/llm\_generation.py: the context builder\<close>

text \<open>
  A retrieval match is a dictionary with the optional keys \<open>metadata\<close> (itself a
  dictionary of text fields) and \<open>score\<close>. \<open>match.get('metadata', {})\<close> and
  \<open>match.get('score', 0)\<close> supply the defaults.
\<close>

type_synonym metadata_dict = "string \<rightharpoonup> string"

record retrieval_match =
  metadata :: "metadata_dict option"
  score :: "real option"

definition get_metadata :: "retrieval_match \<Rightarrow> metadata_dict" where
  "get_metadata m = (case metadata m of None \<Rightarrow> Map.empty | Some md \<Rightarrow> md)"

definition get_score :: "retrieval_match \<Rightarrow> real" where
  "get_score m = (case score m of None \<Rightarrow> 0 | Some s \<Rightarrow> s)"

text \<open>\<open>d.get(key, 'N/A')\<close>.\<close>

definition get_or_na :: "metadata_dict \<Rightarrow> string \<Rightarrow> string" where
  "get_or_na md k = (case md k of None \<Rightarrow> ''N/A'' | Some v \<Rightarrow> v)"

text \<open>
  Lines 39 to 47: the list \<open>tags\<close> starts empty and each of the four tests appends to it.
\<close>

definition chunk_tags :: "metadata_dict \<Rightarrow> string list" where
  "chunk_tags md =
     (let tags = [];
          tags = (if md ''obligation'' = Some ''Y'' then tags @ [''Obligation''] else tags);
          tags = (if md ''penalty'' = Some ''Y'' then tags @ [''Penalty''] else tags);
          tags = (if md ''permission'' = Some ''Y'' then tags @ [''Permission''] else tags);
          tags = (if md ''prohibition'' = Some ''Y'' then tags @ [''Prohibition''] else tags)
      in tags)"

text \<open>
  One pass of the loop body (lines 30 to 58) for the match at position \<open>i\<close> of
  \<open>enumerate\<close>, extending \<open>context_string\<close>. The parameter \<open>fmt4\<close> stands for
  Python's \<open>format(score, '.4f')\<close>, the rendering of a float to four decimal places.
\<close>

definition append_chunk :: "(real \<Rightarrow> string) \<Rightarrow> nat \<Rightarrow> retrieval_match \<Rightarrow> string \<Rightarrow> string" where
  "append_chunk fmt4 i m context_string =
     (let md = get_metadata m;
          sc = get_score m;
          chunk_text = get_or_na md ''text'';
          state = get_or_na md ''state'';
          county = get_or_na md ''county'';
          section = get_or_na md ''section'';
          tags = chunk_tags md;
          cs = context_string @ ''[Chunk '' @ str_int (int i + 1) @ '']'' @ newline;
          cs = cs @ ''Score: '' @ fmt4 sc @ newline;
          cs = cs @ ''State: '' @ state @ newline;
          cs = cs @ ''County: '' @ county @ newline;
          cs = cs @ ''Section: '' @ section @ newline;
          cs = (if tags \<noteq> [] then cs @ ''Tags: '' @ str_join '', '' tags @ newline else cs);
          cs = cs @ ''Text: '' @ [CHR 0x22] @ chunk_text @ [CHR 0x22] @ newline @ newline
      in cs)"

fun context_loop :: "(real \<Rightarrow> string) \<Rightarrow> nat \<Rightarrow> retrieval_match list \<Rightarrow> string \<Rightarrow> string" where
  "context_loop fmt4 i [] context_string = context_string"
| "context_loop fmt4 i (m # ms) context_string =
     context_loop fmt4 (Suc i) ms (append_chunk fmt4 i m context_string)"

definition build_context_string ::
  "(real \<Rightarrow> string) \<Rightarrow> retrieval_match list \<Rightarrow> int option \<Rightarrow> string" where
  "build_context_string fmt4 retrieved_chunks max_chunks =
     (if retrieved_chunks = [] then ''No documents were retrieved.''
      else
        let matches_to_process =
              (case max_chunks of
                 None \<Rightarrow> retrieved_chunks
               | Some k \<Rightarrow> slice_to retrieved_chunks k)
        in context_loop fmt4 0 matches_to_process [])"

text \<open>The text that one match contributes: the loop body run on an empty string.\<close>

definition chunk_block :: "(real \<Rightarrow> string) \<Rightarrow> nat \<Rightarrow> retrieval_match \<Rightarrow> string" where
  "chunk_block fmt4 i m = append_chunk fmt4 i m []"


section \<open>rag-query/config.py\<close>

text \<open>
  The class body of \<open>Config\<close> runs once, at import: the two keys are read with
  \<open>os.getenv(name, "")\<close>, the other attributes are literals. The environment is a
  map from variable names to values.
\<close>

record config =
  PINECONE_API_KEY :: string
  ANTHROPIC_API_KEY :: string
  CLAUDE_MODEL :: string
  MAX_NEW_TOKENS :: int

definition os_getenv :: "(string \<rightharpoonup> string) \<Rightarrow> string \<Rightarrow> string \<Rightarrow> string" where
  "os_getenv environ name dflt = (case environ name of None \<Rightarrow> dflt | Some v \<Rightarrow> v)"

definition Config :: "(string \<rightharpoonup> string) \<Rightarrow> config" where
  "Config environ =
     \<lparr>PINECONE_API_KEY = os_getenv environ ''PINECONE_API_KEY'' [],
      ANTHROPIC_API_KEY = os_getenv environ ''ANTHROPIC_API_KEY'' [],
      CLAUDE_MODEL = ''claude-haiku-4-5-20251001'',
      MAX_NEW_TOKENS = 1024\<rparr>"

text \<open>\<open>Config.validate\<close>: \<open>not s\<close> holds of a string exactly when it is empty.\<close>

definition validate :: "config \<Rightarrow> error + unit" where
  "validate cls =
     (if PINECONE_API_KEY cls = [] then
        Inl (ValueError ''PINECONE_API_KEY environment variable is not set'')
      else if ANTHROPIC_API_KEY cls = [] then
        Inl (ValueError ''ANTHROPIC_API_KEY environment variable is not set'')
      else Inr ())"


section \<open>rag-query/llm\_generation.py: the filter-only summary\<close>

text \<open>
  The LLM provider is outside the repository: \<open>client.messages.create\<close> is a
  parameter that maps the request to the content blocks of the reply or to an exception.
  \<open>message.content[0].text\<close> fails on an empty content list and on a first block
  that carries no text.
\<close>

record message_request =
  api_key :: string
  model :: string
  max_tokens :: int
  system :: string
  messages :: "(string \<times> string) list"

datatype content_block = TextBlock string | NonTextBlock

definition first_text :: "content_block list \<Rightarrow> error + string" where
  "first_text content =
     (case content of
        [] \<Rightarrow> Inl IndexError
      | TextBlock t # _ \<Rightarrow> Inr t
      | NonTextBlock # _ \<Rightarrow> Inl (AttributeError ''text''))"

definition filter_only_system_prompt :: string where
  \<open>filter_only_system_prompt =
     newline @
     ''    You are a highly intelligent legal analyst.'' @ newline @
     ''    You will be given a *sample* of the top-retrieved legal documents.'' @ newline @
     ''    Your task is to **provide a high-level summary of the main themes** found in this sample.'' @ newline @
     newline @
     ''    - DO NOT try to answer a question.'' @ newline @
     ''    - DO NOT say "I cannot find an answer."'' @ newline @
     ''    - Simply summarize what you see. Group similar topics together.'' @ newline @
     ''    - Start your response with: "The documents in this sample primarily discuss..."'' @ newline @
     ''  ''\<close>

definition filter_only_user_prompt :: "string \<Rightarrow> string" where
  "filter_only_user_prompt context_string =
     newline @
     ''    **Retrieved Chunks (Sample):**'' @ newline @
     ''    '' @ context_string @ newline @
     ''  ''"

definition generate_llm_response_filter_only_search ::
  "(message_request \<Rightarrow> error + content_block list) \<Rightarrow> config \<Rightarrow>
   string \<Rightarrow> string \<Rightarrow> int \<Rightarrow> error + string" where
  "generate_llm_response_filter_only_search messages_create cfg query_text context_string num_total_chunks =
     (let system_prompt = filter_only_system_prompt;
          user_prompt = filter_only_user_prompt context_string
      in case messages_create
                \<lparr>api_key = ANTHROPIC_API_KEY cfg, model = CLAUDE_MODEL cfg,
                 max_tokens = MAX_NEW_TOKENS cfg, system = system_prompt,
                 messages = [(''user'', user_prompt)]\<rparr> of
           Inl e \<Rightarrow> Inl e
         | Inr content \<Rightarrow>
             (case first_text content of
                Inl e \<Rightarrow> Inl e
              | Inr response_text \<Rightarrow>
                  Inr (''Found '' @ str_int num_total_chunks @ '' laws matching your filters. '' @
                       ''A full list is available in the generated CSV file.'' @ newline @ newline @
                       ''Here is a quick summary of the first 10 results:'' @ newline @ newline @
                       response_text)))"


section \<open>api.py: the query route\<close>

text \<open>
  \<open>request.json\<close> is a decoded JSON value. The two pipelines are built once from a
  class that is not part of the sources; each is a parameter whose \<open>run\<close> maps the
  query and the filters to the answer and the retrieved chunks, or raises.
\<close>

datatype json =
    JNull
  | JBool bool
  | JNumber real
  | JString string
  | JArray "json list"
  | JObject "(string \<times> json) list"

type_synonym pipeline = "json \<Rightarrow> json \<Rightarrow> error + (string \<times> json list)"

text \<open>
  \<open>data.get(key, default)\<close> on a decoded JSON object, whose keys are distinct.
\<close>

definition dict_get :: "(string \<times> json) list \<Rightarrow> string \<Rightarrow> json \<Rightarrow> json" where
  "dict_get kvs k dflt = (case map_of kvs k of None \<Rightarrow> dflt | Some v \<Rightarrow> v)"

datatype pipeline_choice = Hybrid | Baseline

text \<open>Line 24: \<open>hybrid_pipeline if mode == 'hybrid' else baseline_pipeline\<close>.\<close>

definition select_pipeline :: "json \<Rightarrow> pipeline_choice" where
  "select_pipeline mode = (if mode = JString ''hybrid'' then Hybrid else Baseline)"

record query_response =
  response :: string
  chunks :: "json list"
  mode :: json

definition query :: "pipeline \<Rightarrow> pipeline \<Rightarrow> json \<Rightarrow> error + query_response" where
  "query baseline_pipeline hybrid_pipeline data =
     (case data of
        JObject kvs \<Rightarrow>
          (let query_text = dict_get kvs ''query'' (JString []);
               filters = dict_get kvs ''filters'' (JObject []);
               mode = dict_get kvs ''mode'' (JString ''hybrid'');
               pipeline = (case select_pipeline mode of
                             Hybrid \<Rightarrow> hybrid_pipeline
                           | Baseline \<Rightarrow> baseline_pipeline)
           in case pipeline query_text filters of
                Inl e \<Rightarrow> Inl e
              | Inr (llm_output, retrieved_chunks) \<Rightarrow>
                  Inr \<lparr>response = llm_output, chunks = retrieved_chunks, mode = mode\<rparr>)
      | _ \<Rightarrow> Inl (AttributeError ''get''))"


section \<open>pinecone-embedding: embed\_sparse\<close>

text \<open>
  The inference client is outside the repository. It is a parameter: given the number of
  embedding calls made before this one and the request, it returns the items of the
  reply or raises. The run state counts the calls and records, in order, every
  embedding call and every \<open>time.sleep\<close>.
\<close>

record sparse_item =
  sparse_indices :: "int list"
  sparse_values :: "real list"

text \<open>The dictionary \<open>{"indices": ..., "values": ...}\<close>.\<close>

record sparse_embedding =
  indices :: "int list"
  vals :: "real list"

record embed_request =
  embed_model :: string
  inputs :: "string list"
  parameters :: "(string \<times> string) list"

type_synonym inference = "nat \<Rightarrow> embed_request \<Rightarrow> error + sparse_item list"

datatype event = Embed embed_request | Sleep real

record run_state =
  calls :: nat
  trace :: "event list"

definition time_sleep :: "real \<Rightarrow> run_state \<Rightarrow> error + run_state" where
  "time_sleep secs st =
     (if secs < 0 then Inl (ValueError ''sleep length must be non-negative'')
      else Inr (st\<lparr>trace := trace st @ [Sleep secs]\<rparr>))"

text \<open>
  Lines 40 to 59, the loop \<open>for attempt in range(max_retries)\<close> over the attempts that
  remain. \<open>result\<close> is the local variable of that name: it keeps its value from the
  previous batch until a call succeeds. A \<open>PineconeApiException\<close> is handled by the first
  \<open>except\<close> clause, every other exception by the second.
\<close>

fun retry_loop ::
  "inference \<Rightarrow> embed_request \<Rightarrow> nat \<Rightarrow> nat list \<Rightarrow> real \<Rightarrow> sparse_item list option \<Rightarrow>
   run_state \<Rightarrow> (error + sparse_item list option) \<times> run_state" where
  "retry_loop pc req max_retries [] retry_delay result st = (Inr result, st)"
| "retry_loop pc req max_retries (attempt # rest) retry_delay result st =
     (let st1 = st\<lparr>calls := calls st + 1, trace := trace st @ [Embed req]\<rparr>
      in case pc (calls st) req of
           Inr r \<Rightarrow> (Inr (Some r), st1)
         | Inl e \<Rightarrow>
             (case e of
                PineconeApiException status \<Rightarrow>
                  if status = 429 \<and> attempt < max_retries - 1 then
                    (case time_sleep retry_delay st1 of
                       Inl e' \<Rightarrow> (Inl e', st1)
                     | Inr st2 \<Rightarrow> retry_loop pc req max_retries rest (retry_delay * 2) result st2)
                  else (Inl e, st1)
              | _ \<Rightarrow>
                  if attempt < max_retries - 1 then
                    (case time_sleep retry_delay st1 of
                       Inl e' \<Rightarrow> (Inl e', st1)
                     | Inr st2 \<Rightarrow> retry_loop pc req max_retries rest (retry_delay * 2) result st2)
                  else (Inl e, st1)))"

text \<open>Lines 62 to 73: the record kept for one returned item.\<close>

definition item_embedding :: "sparse_item \<Rightarrow> sparse_embedding" where
  "item_embedding item =
     (let sparse_embedding = \<lparr>indices = sparse_indices item, vals = sparse_values item\<rparr>
      in if length (indices sparse_embedding) = 0 then \<lparr>indices = [0], vals = [0.001]\<rparr>
         else sparse_embedding)"

text \<open>Lines 61 to 74: \<open>for item in result\<close>, appending to \<open>sparse_embeddings\<close>.\<close>

fun append_items :: "sparse_item list \<Rightarrow> sparse_embedding list \<Rightarrow> sparse_embedding list" where
  "append_items [] sparse_embeddings = sparse_embeddings"
| "append_items (item # items) sparse_embeddings =
     append_items items (sparse_embeddings @ [item_embedding item])"

text \<open>
  \<open>range(0, n, step)\<close>: a zero step raises, a negative step gives no index, a positive
  step gives \<open>0, step, 2 * step, ...\<close> below \<open>n\<close>.
\<close>

definition range_step :: "nat \<Rightarrow> int \<Rightarrow> error + nat list" where
  "range_step n step =
     (if step = 0 then Inl (ValueError ''range() arg 3 must not be zero'')
      else if step < 0 then Inr []
      else Inr (map (\<lambda>j. j * nat step) [0..<(n + nat step - 1) div nat step]))"

text \<open>
  Lines 34 to 78, the loop over the batch starts. The slice \<open>all_chunks[i:i + batch_size]\<close>
  is taken with a positive \<open>batch_size\<close>, the only case in which the loop body runs.
\<close>

fun batch_loop ::
  "inference \<Rightarrow> string \<Rightarrow> string list \<Rightarrow> nat \<Rightarrow> real \<Rightarrow> nat list \<Rightarrow> sparse_item list option \<Rightarrow>
   sparse_embedding list \<Rightarrow> run_state \<Rightarrow> (error + sparse_embedding list) \<times> run_state" where
  "batch_loop pc mdl all_chunks batch_size delay_between_requests [] result sparse_embeddings st =
     (Inr sparse_embeddings, st)"
| "batch_loop pc mdl all_chunks batch_size delay_between_requests (i # starts) result sparse_embeddings st =
     (let chunk_batch = take batch_size (drop i all_chunks);
          max_retries = 5;
          retry_delay = 1;
          req = \<lparr>embed_model = mdl, inputs = chunk_batch,
                 parameters = [(''input_type'', ''passage''), (''truncate'', ''END'')]\<rparr>
      in case retry_loop pc req max_retries [0..<max_retries] retry_delay result st of
           (Inl e, st1) \<Rightarrow> (Inl e, st1)
         | (Inr None, st1) \<Rightarrow> (Inl (UnboundLocalError ''result''), st1)
         | (Inr (Some r), st1) \<Rightarrow>
             (let sparse_embeddings = append_items r sparse_embeddings
              in case time_sleep delay_between_requests st1 of
                   Inl e \<Rightarrow> (Inl e, st1)
                 | Inr st2 \<Rightarrow>
                     batch_loop pc mdl all_chunks batch_size delay_between_requests starts
                       (Some r) sparse_embeddings st2))"

text \<open>
  The table is a map from column names to columns; \<open>df[text_col]\<close> raises on a column
  that is not there. \<open>60.0 / requests_per_minute\<close> raises on zero.
\<close>

definition embed_sparse ::
  "inference \<Rightarrow> (string \<rightharpoonup> string list) \<Rightarrow> string \<Rightarrow> string \<Rightarrow> int \<Rightarrow> int \<Rightarrow> run_state \<Rightarrow>
   (error + sparse_embedding list) \<times> run_state" where
  "embed_sparse pc df text_col mdl batch_size requests_per_minute st =
     (case df text_col of
        None \<Rightarrow> (Inl (ColumnNotFoundError text_col), st)
      | Some all_chunks \<Rightarrow>
          if requests_per_minute = 0 then (Inl ZeroDivisionError, st)
          else
            (let delay_between_requests = 60 / real_of_int requests_per_minute
             in case range_step (length all_chunks) batch_size of
                  Inl e \<Rightarrow> (Inl e, st)
                | Inr starts \<Rightarrow>
                    batch_loop pc mdl all_chunks (nat batch_size) delay_between_requests starts
                      None [] st))"

definition default_text_col :: string where
  "default_text_col = ''chunk_text''"

definition default_embed_model :: string where
  "default_embed_model = ''pinecone-sparse-english-v0''"

definition default_batch_size :: int where
  "default_batch_size = 96"

definition default_requests_per_minute :: int where
  "default_requests_per_minute = 5"


section \<open>pinecone-embedding: load\_parquet\_from\_s3\<close>

text \<open>
  The file system, the object store and the table library are outside the repository.
  They are the fields of an environment: \<open>os.path.expanduser\<close>, \<open>glob.glob\<close> with
  \<open>recursive=True\<close>, \<open>pl.read_parquet\<close> on a path and on the bytes of an object,
  \<open>list_objects_v2\<close> and \<open>get_object\<close> of the client created for a region, and
  \<open>pl.concat\<close> with \<open>how="vertical"\<close>. The type \<open>'t\<close> is the type of tables. The
  bucket does not change while it is listed: a listing request determines its response.
\<close>

record list_params =
  Bucket :: string
  Prefix :: "string option"
  ContinuationToken :: "string option"

text \<open>
  A listing response: the keys of \<open>Contents\<close> when that entry is present, and the
  entries \<open>IsTruncated\<close> and \<open>NextContinuationToken\<close> when present.
\<close>

record list_response =
  Contents :: "string list option"
  IsTruncated :: "bool option"
  NextContinuationToken :: "string option"

record 't storage =
  expanduser :: "string \<Rightarrow> string"
  glob_recursive :: "string \<Rightarrow> string list"
  read_parquet :: "string \<Rightarrow> error + 't"
  list_objects_v2 :: "string \<Rightarrow> list_params \<Rightarrow> error + list_response"
  get_object :: "string \<Rightarrow> string \<Rightarrow> string \<Rightarrow> error + string"
  read_parquet_bytes :: "string \<Rightarrow> error + 't"
  pl_concat :: "'t list \<Rightarrow> error + 't"

text \<open>Truth value of an optional string: \<open>None\<close> and the empty string are false.\<close>

definition truthy :: "string option \<Rightarrow> bool" where
  "truthy s = (case s of None \<Rightarrow> False | Some v \<Rightarrow> v \<noteq> [])"

text \<open>\<open>str(s)\<close> inside an f-string, for an optional string.\<close>

definition str_opt :: "string option \<Rightarrow> string" where
  "str_opt s = (case s of None \<Rightarrow> ''None'' | Some v \<Rightarrow> v)"

text \<open>\<open>os.path.join(a, *p)\<close> on POSIX.\<close>

fun os_path_join :: "string \<Rightarrow> string list \<Rightarrow> string" where
  "os_path_join path [] = path"
| "os_path_join path (b # p) =
     (if startswith b ''/'' then os_path_join b p
      else if path = [] \<or> endswith path ''/'' then os_path_join (path @ b) p
      else os_path_join (path @ ''/'' @ b) p)"

declare os_path_join.simps [simp del]

definition is_local :: "string \<Rightarrow> bool" where
  "is_local bucket = startswith_any bucket [''/'', ''.'', ''~'']"

text \<open>The list comprehension \<open>[pl.read_parquet(f) for f in ...]\<close>: the first failure raises.\<close>

fun read_all :: "'t storage \<Rightarrow> string list \<Rightarrow> error + 't list" where
  "read_all env [] = Inr []"
| "read_all env (f # fs) =
     (case read_parquet env f of
        Inl e \<Rightarrow> Inl e
      | Inr t \<Rightarrow> (case read_all env fs of Inl e \<Rightarrow> Inl e | Inr ts \<Rightarrow> Inr (t # ts)))"

text \<open>Lines 83 to 85: fetch and parse each listed key, appending to \<open>dfs\<close>.\<close>

fun fetch_all :: "'t storage \<Rightarrow> string \<Rightarrow> string \<Rightarrow> string list \<Rightarrow> 't list \<Rightarrow> error + 't list" where
  "fetch_all env region bucket [] dfs = Inr dfs"
| "fetch_all env region bucket (key # keys) dfs =
     (case get_object env region bucket key of
        Inl e \<Rightarrow> Inl e
      | Inr body \<Rightarrow>
          (case read_parquet_bytes env body of
             Inl e \<Rightarrow> Inl e
           | Inr t \<Rightarrow> fetch_all env region bucket keys (dfs @ [t])))"

text \<open>
  Lines 56 to 77, the loop \<open>while True\<close> over the pages of the listing. It need not end:
  the value \<open>None\<close> stands for a loop that runs forever.
\<close>

partial_function (option) list_loop ::
  "'t storage \<Rightarrow> string \<Rightarrow> string \<Rightarrow> string option \<Rightarrow> string option \<Rightarrow> string list \<Rightarrow>
   (error + string list) option" where
  "list_loop env region bucket prefix' continuation_token parquet_files =
     (let params = \<lparr>Bucket = bucket,
                     Prefix = (if truthy prefix' then prefix' else None),
                     ContinuationToken = (if truthy continuation_token then continuation_token else None)\<rparr>
      in case list_objects_v2 env region params of
           Inl e \<Rightarrow> Some (Inl e)
         | Inr resp \<Rightarrow>
             (case Contents resp of
                None \<Rightarrow>
                  Some (Inl (FileNotFoundError
                    (''No parquet files found in S3://'' @ bucket @ ''/'' @ str_opt prefix')))
              | Some objs \<Rightarrow>
                  (let parquet_files' = parquet_files @ filter (\<lambda>key. endswith key ''.parquet'') objs
                   in if IsTruncated resp = Some True then
                        list_loop env region bucket prefix' (NextContinuationToken resp) parquet_files'
                      else Some (Inr parquet_files'))))"

declare list_loop.simps [code]

definition load_parquet_from_s3 ::
  "'t storage \<Rightarrow> string \<Rightarrow> string option \<Rightarrow> string option \<Rightarrow> string \<Rightarrow> (error + 't) option" where
  "load_parquet_from_s3 env bucket prefix' single_key region =
     (if is_local bucket then
        (let base = expanduser env bucket;
             base = (if truthy prefix' then os_path_join base [str_opt prefix'] else base)
         in if truthy single_key then
              Some (read_parquet env (os_path_join base [str_opt single_key]))
            else
              (let parquet_files = glob_recursive env (os_path_join base [''**'', ''*.parquet''])
               in if parquet_files = [] then
                    Some (Inl (FileNotFoundError (''No parquet files found in '' @ base)))
                  else
                    (case read_all env (sort parquet_files) of
                       Inl e \<Rightarrow> Some (Inl e)
                     | Inr ts \<Rightarrow> Some (pl_concat env ts))))
      else if truthy single_key then
        (case get_object env region bucket (str_opt single_key) of
           Inl e \<Rightarrow> Some (Inl e)
         | Inr body \<Rightarrow> Some (read_parquet_bytes env body))
      else
        (case list_loop env region bucket prefix' None [] of
           None \<Rightarrow> None
         | Some (Inl e) \<Rightarrow> Some (Inl e)
         | Some (Inr parquet_files) \<Rightarrow>
             if parquet_files = [] then
               Some (Inl (FileNotFoundError
                 (''No parquet files found in S3://'' @ bucket @ ''/'' @ str_opt prefix')))
             else
               (case fetch_all env region bucket parquet_files [] of
                  Inl e \<Rightarrow> Some (Inl e)
                | Inr dfs \<Rightarrow> Some (pl_concat env dfs))))"

text \<open>
  The pages that the listing loop reads, starting from a continuation token: each page
  but the last is truncated and names the token of the next one.
\<close>

inductive listing ::
  "'t storage \<Rightarrow> string \<Rightarrow> string \<Rightarrow> string option \<Rightarrow> string option \<Rightarrow> list_response list \<Rightarrow> bool" where
  last_page:
    "list_objects_v2 env region
        \<lparr>Bucket = bucket, Prefix = (if truthy prefix' then prefix' else None),
         ContinuationToken = (if truthy tok then tok else None)\<rparr> = Inr resp \<Longrightarrow>
     IsTruncated resp \<noteq> Some True \<Longrightarrow>
     listing env region bucket prefix' tok [resp]"
| next_page:
    "list_objects_v2 env region
        \<lparr>Bucket = bucket, Prefix = (if truthy prefix' then prefix' else None),
         ContinuationToken = (if truthy tok then tok else None)\<rparr> = Inr resp \<Longrightarrow>
     IsTruncated resp = Some True \<Longrightarrow>
     listing env region bucket prefix' (NextContinuationToken resp) pages \<Longrightarrow>
     listing env region bucket prefix' tok (resp # pages)"

text \<open>The keys of a page, none when \<open>Contents\<close> is absent.\<close>

definition page_keys :: "list_response \<Rightarrow> string list" where
  "page_keys resp = (case Contents resp of None \<Rightarrow> [] | Some objs \<Rightarrow> objs)"

text \<open>
  Vocabulary for the retry policy. An exception is retried when it is a
  \<open>PineconeApiException\<close> with status 429 or is not a \<open>PineconeApiException\<close> at all.
  \<open>backoff_trace req k\<close> is the trace of \<open>k\<close> failed attempts, each followed by its sleep
  of 1, 2, 4, ... seconds, and of one more attempt.
\<close>

definition retryable :: "error \<Rightarrow> bool" where
  "retryable e = (case e of PineconeApiException status \<Rightarrow> status = 429 | _ \<Rightarrow> True)"




text \<open>
  Vocabulary for the records of a run. \<open>E t item\<close> reads: the provider returned \<open>item\<close>
  for the text \<open>t\<close>. A record is the record for \<open>t\<close> when it is the placeholder for
  an item without indices and the item's own indices and values otherwise.
\<close>

definition record_for ::
  "(string \<Rightarrow> sparse_item \<Rightarrow> bool) \<Rightarrow> string \<Rightarrow> sparse_embedding \<Rightarrow> bool" where
  "record_for E t rec =
     (\<exists>item. E t item \<and>
        rec = (if sparse_indices item = [] then \<lparr>indices = [0], vals = [0.001]\<rparr>
               else \<lparr>indices = sparse_indices item, vals = sparse_values item\<rparr>))"

text \<open>
  Vocabulary for the loader. \<open>local_base\<close> is the value of \<open>base\<close> after lines 30 to 32,
  \<open>parquet_keys\<close> the keys of the listed pages that end in the extension, in listing
  order.
\<close>

definition local_base :: "'t storage \<Rightarrow> string \<Rightarrow> string option \<Rightarrow> string" where
  "local_base env bucket prefix' =
     (if truthy prefix' then os_path_join (expanduser env bucket) [str_opt prefix']
      else expanduser env bucket)"

definition parquet_keys :: "list_response list \<Rightarrow> string list" where
  "parquet_keys pages = filter (\<lambda>key. endswith key ''.parquet'') (concat (map page_keys pages))"


section \<open>glob.glob on a disk of files\<close>

text \<open>
  The Python library's \<open>glob.glob(base + "/**/*.parquet", recursive=True)\<close>, on a disk
  given as the list of the paths of its regular files. \<open>**\<close> walks the directories
  below \<open>base\<close> and \<open>*.parquet\<close> matches the names in each of them, and both skip
  every name that begins with a dot: a file is returned when it lies below \<open>base\<close>, no
  component of its path below \<open>base\<close> begins with a dot, and its name ends in
  \<open>.parquet\<close>.
\<close>

text \<open>\<open>s.split('/')\<close>.\<close>

fun split_path :: "string \<Rightarrow> string list" where
  "split_path [] = [[]]"
| "split_path (c # cs) =
     (if c = CHR ''/'' then [] # split_path cs
      else (case split_path cs of [] \<Rightarrow> [[c]] | p # ps \<Rightarrow> (c # p) # ps))"

definition is_hidden :: "string \<Rightarrow> bool" where
  "is_hidden name = startswith name ''.''"

definition glob_parquet_under :: "string list \<Rightarrow> string \<Rightarrow> string list" where
  "glob_parquet_under files base =
     filter (\<lambda>f. startswith f (base @ ''/'') \<and>
                 \<not> list_ex is_hidden (split_path (drop (length base + 1) f)) \<and>
                 endswith f ''.parquet'') files"

definition py_glob_recursive :: "string list \<Rightarrow> string \<Rightarrow> string list" where
  "py_glob_recursive files pattern =
     (if endswith pattern ''/**/*.parquet''
      then glob_parquet_under files (take (length pattern - 13) pattern)
      else [])"


section \<open>Example inputs\<close>

text \<open>Concrete inputs at which the theorems below are instantiated.\<close>

definition fmt4_example :: "real \<Rightarrow> string" where
  "fmt4_example x = (if x = 0.5 then ''0.5000'' else ''0.0000'')"

definition match_two_tags :: retrieval_match where
  "match_two_tags =
     \<lparr>metadata = Some [''text'' \<mapsto> ''No parking.'', ''state'' \<mapsto> ''OH'',
                        ''obligation'' \<mapsto> ''Y'', ''penalty'' \<mapsto> ''Y'', ''permission'' \<mapsto> ''N''],
      score = Some 0.5\<rparr>"

definition match_bare :: retrieval_match where
  "match_bare = \<lparr>metadata = None, score = None\<rparr>"

definition environ_empty_key :: "string \<rightharpoonup> string" where
  "environ_empty_key = [''PINECONE_API_KEY'' \<mapsto> [], ''ANTHROPIC_API_KEY'' \<mapsto> ''sk-ant-1'']"

definition environ_both_keys :: "string \<rightharpoonup> string" where
  "environ_both_keys = [''PINECONE_API_KEY'' \<mapsto> ''pc-1'', ''ANTHROPIC_API_KEY'' \<mapsto> ''sk-ant-1'']"

definition environ_no_anthropic :: "string \<rightharpoonup> string" where
  "environ_no_anthropic = [''PINECONE_API_KEY'' \<mapsto> ''pc-1'']"

definition llm_example :: "message_request \<Rightarrow> error + content_block list" where
  "llm_example req = Inr [TextBlock ''The documents in this sample primarily discuss parking.'']"

definition baseline_example :: pipeline where
  "baseline_example q f = Inr (''baseline answer'', [])"

definition hybrid_example :: pipeline where
  "hybrid_example q f = Inr (''hybrid answer'', [JNull])"

definition body_typo :: "(string \<times> json) list" where
  "body_typo = [(''query'', JString ''noise rules''), (''mode'', JString ''hybird'')]"

definition body_no_mode :: "(string \<times> json) list" where
  "body_no_mode = [(''query'', JString ''noise rules'')]"

definition state0 :: run_state where
  "state0 = \<lparr>calls = 0, trace = []\<rparr>"

definition table_example :: "string \<rightharpoonup> string list" where
  "table_example = [''chunk_text'' \<mapsto> [''alpha'', '''', ''gamma'']]"

definition request_example :: embed_request where
  "request_example =
     \<lparr>embed_model = ''pinecone-sparse-english-v0'', inputs = [''alpha'', '''', ''gamma''],
      parameters = [(''input_type'', ''passage''), (''truncate'', ''END'')]\<rparr>"

text \<open>A provider that embeds the empty text as an item without indices.\<close>

definition item_for :: "string \<Rightarrow> sparse_item" where
  "item_for t =
     (if t = [] then \<lparr>sparse_indices = [], sparse_values = []\<rparr>
      else \<lparr>sparse_indices = [int (length t)], sparse_values = [0.5]\<rparr>)"

definition pc_ok :: inference where
  "pc_ok n req = Inr (map item_for (inputs req))"

definition pc_server_error :: inference where
  "pc_server_error n req = Inl (PineconeApiException 500)"

definition pc_rate_limited :: inference where
  "pc_rate_limited n req = Inl (PineconeApiException 429)"

definition pc_flaky :: inference where
  "pc_flaky n req =
     (if n < 2 then Inl (PineconeApiException 429) else Inr (map item_for (inputs req)))"

definition embeds_example :: "string \<Rightarrow> sparse_item \<Rightarrow> bool" where
  "embeds_example t item = (item = item_for t)"

text \<open>
  A store with two tables on disk under \<open>/data/chunks\<close>, a bucket \<open>corpus\<close> listed in
  two pages, a bucket \<open>logs\<close> without tables and a bucket \<open>void\<close> without objects.
  A table is its list of rows.
\<close>

definition page_one :: list_response where
  "page_one = \<lparr>Contents = Some [''p/1.parquet'', ''p/readme.txt''], IsTruncated = Some True,
                NextContinuationToken = Some ''t1''\<rparr>"

definition page_two :: list_response where
  "page_two = \<lparr>Contents = Some [''p/2.parquet''], IsTruncated = Some False,
                NextContinuationToken = None\<rparr>"

definition page_logs :: list_response where
  "page_logs = \<lparr>Contents = Some [''2024/app.log''], IsTruncated = None,
                 NextContinuationToken = None\<rparr>"

definition page_void :: list_response where
  "page_void = \<lparr>Contents = None, IsTruncated = Some False, NextContinuationToken = None\<rparr>"

definition storage_example :: "string list storage" where
  "storage_example =
     \<lparr>expanduser = (\<lambda>p. p),
      glob_recursive = (\<lambda>pat. if pat = ''/data/chunks/**/*.parquet''
                               then [''/data/chunks/b.parquet'', ''/data/chunks/a/x.parquet'']
                               else []),
      read_parquet = (\<lambda>f. if f = ''/data/chunks/b.parquet'' then Inr [''row b1'', ''row b2'']
                           else if f = ''/data/chunks/a/x.parquet'' then Inr [''row x1'']
                           else Inl (FileNotFoundError f)),
      list_objects_v2 = (\<lambda>region params.
         if Bucket params = ''corpus'' then
           (if ContinuationToken params = None then Inr page_one
            else if ContinuationToken params = Some ''t1'' then Inr page_two
            else Inl (OtherException ''InvalidToken''))
         else if Bucket params = ''logs'' then Inr page_logs
         else if Bucket params = ''void'' then Inr page_void
         else Inl (OtherException ''NoSuchBucket'')),
      get_object = (\<lambda>region bucket key. Inr key),
      read_parquet_bytes = (\<lambda>body. Inr [''row of '' @ body]),
      pl_concat = (\<lambda>ts. Inr (concat ts))\<rparr>"

text \<open>
  A disk whose directory \<open>/data/chunks\<close> holds one plain table, one table whose name
  begins with a dot and one table in a directory whose name begins with a dot; and a
  bucket that lists the same three keys in one page.
\<close>

definition disk_hidden :: "(string \<times> string list) list" where
  "disk_hidden =
     [(''/data/chunks/b.parquet'', [''row b1'']),
      (''/data/chunks/.hidden.parquet'', [''row h1'']),
      (''/data/chunks/.cache/c.parquet'', [''row c1''])]"

definition page_hidden :: list_response where
  "page_hidden =
     \<lparr>Contents = Some [''chunks/b.parquet'', ''chunks/.hidden.parquet'', ''chunks/.cache/c.parquet''],
      IsTruncated = Some False, NextContinuationToken = None\<rparr>"

definition storage_hidden :: "string list storage" where
  "storage_hidden =
     \<lparr>expanduser = (\<lambda>p. p),
      glob_recursive = py_glob_recursive (map fst disk_hidden),
      read_parquet = (\<lambda>f. case map_of disk_hidden f of
                              None \<Rightarrow> Inl (FileNotFoundError f)
                            | Some t \<Rightarrow> Inr t),
      list_objects_v2 = (\<lambda>region params. Inr page_hidden),
      get_object = (\<lambda>region bucket key. Inr key),
      read_parquet_bytes = (\<lambda>body. Inr [''row of '' @ body]),
      pl_concat = (\<lambda>ts. Inr (concat ts))\<rparr>"


section \<open>The context builder: blocks, tags and limits\<close>

lemma append_chunk_acc: "append_chunk f i m acc = acc @ chunk_block f i m"
  by (simp add: append_chunk_def chunk_block_def Let_def)

lemma upt_0_Suc_map: "[0..<Suc n] = 0 # map Suc [0..<n]"
  by (simp add: upt_conv_Cons map_Suc_upt del: upt_Suc)

lemma context_loop_blocks:
  "context_loop f i ms acc =
     acc @ concat (map (\<lambda>j. chunk_block f (i + j) (ms ! j)) [0..<length ms])"
proof (induction ms arbitrary: i acc)
  case Nil
  then show ?case by simp
next
  case (Cons m ms)
  have "[0..<length (m # ms)] = 0 # map Suc [0..<length ms]"
    using upt_0_Suc_map by simp
  then show ?case
    by (simp add: Cons.IH append_chunk_acc[of f i m acc] comp_def)
qed

lemma chunk_block_header:
  "prefix (''[Chunk '' @ str_int (int j + 1) @ '']'' @ newline) (chunk_block f j m)"
  by (simp add: chunk_block_def append_chunk_def Let_def prefix_def)

lemma build_empty: "build_context_string f [] mc = ''No documents were retrieved.''"
  by (simp add: build_context_string_def)

lemma context_loop_take:
  "context_loop f 0 (take n ms) [] =
     concat (map (\<lambda>j. chunk_block f j (ms ! j)) [0..<min n (length ms)])"
proof -
  have len: "length (take n ms) = min n (length ms)"
    by (simp add: min.commute)
  have "context_loop f 0 (take n ms) [] =
      concat (map (\<lambda>j. chunk_block f j (take n ms ! j)) [0..<min n (length ms)])"
    unfolding context_loop_blocks len by simp
  also have "\<dots> = concat (map (\<lambda>j. chunk_block f j (ms ! j)) [0..<min n (length ms)])"
    by (rule arg_cong[where f = concat], rule map_cong) auto
  finally show ?thesis .
qed

lemma build_some_nonneg:
  assumes "ms \<noteq> []" "0 \<le> k"
  shows "build_context_string f ms (Some k) =
     concat (map (\<lambda>j. chunk_block f j (ms ! j)) [0..<min (nat k) (length ms)])"
  using assms by (simp add: build_context_string_def slice_to_def context_loop_take)

lemma build_none:
  assumes "ms \<noteq> []"
  shows "build_context_string f ms None =
     concat (map (\<lambda>j. chunk_block f j (ms ! j)) [0..<length ms])"
  using assms by (simp add: build_context_string_def context_loop_blocks)

lemmas eval_context =
  build_context_string_def slice_to_def append_chunk_def chunk_block_def get_metadata_def
  get_score_def get_or_na_def chunk_tags_def str_int_def str_nat.simps digit_char_def
  newline_def fmt4_example_def match_two_tags_def match_bare_def

text \<open>
  C4: on the empty list the result is exactly \<open>No documents were retrieved.\<close>; on a
  non-empty list with a limit \<open>k\<close>, a count of chunks, the result is the concatenation
  of the blocks of the first \<open>min(k, length)\<close> matches, numbered from 1; without a limit
  it is the concatenation of one block per match; and the block at position \<open>j\<close> begins
  with the header \<open>[Chunk j+1]\<close>.
\<close>

theorem build_context_blocks:
  "build_context_string f [] mc = ''No documents were retrieved.'' \<and>
   (ms \<noteq> [] \<and> 0 \<le> k \<longrightarrow>
      build_context_string f ms (Some k) =
        concat (map (\<lambda>j. chunk_block f j (ms ! j)) [0..<min (nat k) (length ms)])) \<and>
   (ms \<noteq> [] \<longrightarrow>
      build_context_string f ms None =
        concat (map (\<lambda>j. chunk_block f j (ms ! j)) [0..<length ms])) \<and>
   (\<forall>j m. prefix (''[Chunk '' @ str_int (int j + 1) @ '']'' @ newline) (chunk_block f j m))"
  using build_empty build_some_nonneg build_none chunk_block_header by blast

theorem build_context_blocks_witness:
  "[match_two_tags, match_bare, match_bare] \<noteq> [] \<and> (0::int) \<le> 2 \<and>
   build_context_string fmt4_example [match_two_tags, match_bare, match_bare] (Some 2) =
     chunk_block fmt4_example 0 match_two_tags @ chunk_block fmt4_example 1 match_bare \<and>
   build_context_string fmt4_example [match_two_tags, match_bare, match_bare] None =
     chunk_block fmt4_example 0 match_two_tags @ chunk_block fmt4_example 1 match_bare @
     chunk_block fmt4_example 2 match_bare"
proof -
  have ne: "[match_two_tags, match_bare, match_bare] \<noteq> []" and k: "(0::int) \<le> 2"
    by simp_all
  have r: "[0..<min (nat 2) (length [match_two_tags, match_bare, match_bare])] = [0, 1]"
    and r': "[0..<length [match_two_tags, match_bare, match_bare]] = [0, 1, 2]"
    by (simp_all add: upt_rec)
  show ?thesis
    using ne k
      build_context_blocks [of fmt4_example None "[match_two_tags, match_bare, match_bare]" 2]
    unfolding r r' by simp
qed

text \<open>
  C5: the tags of a match are, in the fixed order Obligation, Penalty, Permission,
  Prohibition, those whose metadata field equals \<open>Y\<close>; an absent field or any other
  value gives no tag. The block of the match holds the line \<open>Tags: \<close> followed by the
  tags joined with a comma and a space when the tag list is non-empty, and no such line
  otherwise.
\<close>

theorem chunk_tags_and_tags_line:
  "chunk_tags md =
     map snd (filter (\<lambda>(k, t). md k = Some ''Y'')
       [(''obligation'', ''Obligation''), (''penalty'', ''Penalty''),
        (''permission'', ''Permission''), (''prohibition'', ''Prohibition'')]) \<and>
   ((''Obligation'' \<in> set (chunk_tags md)) = (md ''obligation'' = Some ''Y'')) \<and>
   ((''Penalty'' \<in> set (chunk_tags md)) = (md ''penalty'' = Some ''Y'')) \<and>
   ((''Permission'' \<in> set (chunk_tags md)) = (md ''permission'' = Some ''Y'')) \<and>
   ((''Prohibition'' \<in> set (chunk_tags md)) = (md ''prohibition'' = Some ''Y'')) \<and>
   chunk_block f i m =
     ''[Chunk '' @ str_int (int i + 1) @ '']'' @ newline @
     ''Score: '' @ f (get_score m) @ newline @
     ''State: '' @ get_or_na (get_metadata m) ''state'' @ newline @
     ''County: '' @ get_or_na (get_metadata m) ''county'' @ newline @
     ''Section: '' @ get_or_na (get_metadata m) ''section'' @ newline @
     (if chunk_tags (get_metadata m) = [] then []
      else ''Tags: '' @ str_join '', '' (chunk_tags (get_metadata m)) @ newline) @
     ''Text: '' @ [CHR 0x22] @ get_or_na (get_metadata m) ''text'' @ [CHR 0x22] @ newline @ newline"
proof -
  have "chunk_tags md =
     map snd (filter (\<lambda>(k, t). md k = Some ''Y'')
       [(''obligation'', ''Obligation''), (''penalty'', ''Penalty''),
        (''permission'', ''Permission''), (''prohibition'', ''Prohibition'')])"
    by (simp add: chunk_tags_def)
  moreover have "(''Obligation'' \<in> set (chunk_tags md)) = (md ''obligation'' = Some ''Y'')"
    by (simp add: chunk_tags_def Let_def)
  moreover have "(''Penalty'' \<in> set (chunk_tags md)) = (md ''penalty'' = Some ''Y'')"
    by (simp add: chunk_tags_def Let_def)
  moreover have "(''Permission'' \<in> set (chunk_tags md)) = (md ''permission'' = Some ''Y'')"
    by (simp add: chunk_tags_def Let_def)
  moreover have "(''Prohibition'' \<in> set (chunk_tags md)) = (md ''prohibition'' = Some ''Y'')"
    by (simp add: chunk_tags_def Let_def)
  moreover have "chunk_block f i m =
     ''[Chunk '' @ str_int (int i + 1) @ '']'' @ newline @
     ''Score: '' @ f (get_score m) @ newline @
     ''State: '' @ get_or_na (get_metadata m) ''state'' @ newline @
     ''County: '' @ get_or_na (get_metadata m) ''county'' @ newline @
     ''Section: '' @ get_or_na (get_metadata m) ''section'' @ newline @
     (if chunk_tags (get_metadata m) = [] then []
      else ''Tags: '' @ str_join '', '' (chunk_tags (get_metadata m)) @ newline) @
     ''Text: '' @ [CHR 0x22] @ get_or_na (get_metadata m) ''text'' @ [CHR 0x22] @ newline @ newline"
    by (simp add: chunk_block_def append_chunk_def Let_def)
  ultimately show ?thesis by blast
qed

theorem chunk_tags_and_tags_line_witness:
  "chunk_tags (get_metadata match_two_tags) = [''Obligation'', ''Penalty''] \<and>
   chunk_block fmt4_example 0 match_two_tags =
     ''[Chunk 1]'' @ newline @ ''Score: 0.5000'' @ newline @ ''State: OH'' @ newline @
     ''County: N/A'' @ newline @ ''Section: N/A'' @ newline @
     ''Tags: Obligation, Penalty'' @ newline @
     ''Text: '' @ [CHR 0x22] @ ''No parking.'' @ [CHR 0x22] @ newline @ newline"
  using chunk_tags_and_tags_line [of "get_metadata match_two_tags" fmt4_example 0 match_two_tags]
  by (simp add: eval_context)

text \<open>
  C10: on a non-empty list, \<open>max_chunks = 0\<close> gives the empty string, which is not the
  message \<open>No documents were retrieved.\<close>: the emptiness test comes before the slice.
\<close>

theorem build_context_zero_limit:
  "ms \<noteq> [] \<Longrightarrow>
   build_context_string f ms (Some 0) = [] \<and>
   build_context_string f ms (Some 0) \<noteq> ''No documents were retrieved.''"
  by (simp add: build_context_string_def slice_to_def)

theorem build_context_zero_limit_witness:
  "[match_two_tags] \<noteq> [] \<and>
   build_context_string fmt4_example [match_two_tags] (Some 0) = [] \<and>
   build_context_string fmt4_example [match_two_tags] (Some 0) \<noteq> ''No documents were retrieved.''"
  using build_context_zero_limit [of "[match_two_tags]" fmt4_example] by simp


section \<open>Configuration, the filter-only summary and the query route\<close>

text \<open>
  C9, as stated, at a key that is set to the empty string: both variables are set, and
  \<open>validate\<close> raises.
\<close>

theorem validate_set_but_empty_counterexample:
  "environ_empty_key ''PINECONE_API_KEY'' = Some [] \<and>
   environ_empty_key ''ANTHROPIC_API_KEY'' = Some ''sk-ant-1'' \<and>
   validate (Config environ_empty_key) =
     Inl (ValueError ''PINECONE_API_KEY environment variable is not set'')"
  by (simp add: environ_empty_key_def validate_def Config_def os_getenv_def)

text \<open>
  C9 (amended): \<open>validate\<close> raises \<open>ValueError\<close> when either key is unset or set to the
  empty string, and returns normally, with no value, when both keys are set to non-empty
  strings.
\<close>

theorem validate_nonempty_keys:
  "((environ ''PINECONE_API_KEY'' = None \<or> environ ''PINECONE_API_KEY'' = Some [] \<or>
     environ ''ANTHROPIC_API_KEY'' = None \<or> environ ''ANTHROPIC_API_KEY'' = Some []) \<longrightarrow>
      (\<exists>msg. validate (Config environ) = Inl (ValueError msg))) \<and>
   ((\<exists>p a. environ ''PINECONE_API_KEY'' = Some p \<and> p \<noteq> [] \<and>
           environ ''ANTHROPIC_API_KEY'' = Some a \<and> a \<noteq> []) \<longrightarrow>
      validate (Config environ) = Inr ())"
  by (auto simp add: validate_def Config_def os_getenv_def)

theorem validate_nonempty_keys_witness:
  "environ_no_anthropic ''ANTHROPIC_API_KEY'' = None \<and>
   validate (Config environ_no_anthropic) =
     Inl (ValueError ''ANTHROPIC_API_KEY environment variable is not set'') \<and>
   environ_both_keys ''PINECONE_API_KEY'' = Some ''pc-1'' \<and>
   environ_both_keys ''ANTHROPIC_API_KEY'' = Some ''sk-ant-1'' \<and>
   validate (Config environ_both_keys) = Inr ()"
proof -
  have a: "environ_no_anthropic ''ANTHROPIC_API_KEY'' = None"
    by (simp add: environ_no_anthropic_def)
  have p: "environ_both_keys ''PINECONE_API_KEY'' = Some ''pc-1''"
    and k: "environ_both_keys ''ANTHROPIC_API_KEY'' = Some ''sk-ant-1''"
    by (simp_all add: environ_both_keys_def)
  from a validate_nonempty_keys [of environ_no_anthropic]
  obtain msg where "validate (Config environ_no_anthropic) = Inl (ValueError msg)" by blast
  then have "validate (Config environ_no_anthropic) =
      Inl (ValueError ''ANTHROPIC_API_KEY environment variable is not set'')"
    by (simp add: validate_def Config_def os_getenv_def environ_no_anthropic_def)
  moreover from p k validate_nonempty_keys [of environ_both_keys]
  have "validate (Config environ_both_keys) = Inr ()" by simp
  ultimately show ?thesis using a p k by simp
qed

text \<open>
  C8: whenever the provider's reply starts with a text block, the function returns the
  fixed prefix, with the total chunk count in decimal, followed by that text.
\<close>

theorem filter_only_response_prefix:
  assumes "messages_create
             \<lparr>api_key = ANTHROPIC_API_KEY cfg, model = CLAUDE_MODEL cfg,
              max_tokens = MAX_NEW_TOKENS cfg, system = filter_only_system_prompt,
              messages = [(''user'', filter_only_user_prompt context_string)]\<rparr> =
           Inr (TextBlock summary # rest)"
  shows "generate_llm_response_filter_only_search messages_create cfg query_text context_string n =
     Inr (''Found '' @ str_int n @
          '' laws matching your filters. A full list is available in the generated CSV file.'' @
          newline @ newline @ ''Here is a quick summary of the first 10 results:'' @
          newline @ newline @ summary)"
  using assms by (simp add: generate_llm_response_filter_only_search_def first_text_def)

theorem filter_only_response_prefix_witness:
  "llm_example
     \<lparr>api_key = ANTHROPIC_API_KEY (Config environ_both_keys),
      model = CLAUDE_MODEL (Config environ_both_keys),
      max_tokens = MAX_NEW_TOKENS (Config environ_both_keys), system = filter_only_system_prompt,
      messages = [(''user'', filter_only_user_prompt ''[Chunk 1]'')]\<rparr> =
     Inr (TextBlock ''The documents in this sample primarily discuss parking.'' # []) \<and>
   generate_llm_response_filter_only_search llm_example (Config environ_both_keys) [] ''[Chunk 1]'' 42 =
     Inr (''Found 42 laws matching your filters. A full list is available in the generated CSV file.'' @
          newline @ newline @ ''Here is a quick summary of the first 10 results:'' @
          newline @ newline @ ''The documents in this sample primarily discuss parking.'')"
proof -
  have h: "llm_example
     \<lparr>api_key = ANTHROPIC_API_KEY (Config environ_both_keys),
      model = CLAUDE_MODEL (Config environ_both_keys),
      max_tokens = MAX_NEW_TOKENS (Config environ_both_keys), system = filter_only_system_prompt,
      messages = [(''user'', filter_only_user_prompt ''[Chunk 1]'')]\<rparr> =
     Inr (TextBlock ''The documents in this sample primarily discuss parking.'' # [])"
    by (simp add: llm_example_def)
  have s: "str_int 42 = ''42''"
    by (simp add: str_int_def str_nat.simps digit_char_def)
  show ?thesis
    using h filter_only_response_prefix
      [where messages_create = llm_example and cfg = "Config environ_both_keys"
         and context_string = "''[Chunk 1]''" and rest = "[]" and query_text = "[]" and n = 42
         and summary = "''The documents in this sample primarily discuss parking.''"]
    by (simp add: s)
qed

text \<open>
  C3: for a request whose body is a JSON object, the hybrid pipeline runs exactly when the
  mode, read with the default \<open>hybrid\<close>, equals the string \<open>hybrid\<close>; every other value
  runs the baseline pipeline; an absent field gives the mode \<open>hybrid\<close>; and the
  response carries the mode read from the request.
\<close>

theorem query_mode_selection:
  assumes "m = dict_get kvs ''mode'' (JString ''hybrid'')"
    and "q = dict_get kvs ''query'' (JString [])"
    and "fl = dict_get kvs ''filters'' (JObject [])"
  shows "((select_pipeline m = Hybrid) = (m = JString ''hybrid'')) \<and>
     (m = JString ''hybrid'' \<longrightarrow>
        query bp hp (JObject kvs) =
          (case hp q fl of Inl e \<Rightarrow> Inl e
           | Inr (out, cs) \<Rightarrow> Inr \<lparr>response = out, chunks = cs, mode = m\<rparr>)) \<and>
     (m \<noteq> JString ''hybrid'' \<longrightarrow>
        query bp hp (JObject kvs) =
          (case bp q fl of Inl e \<Rightarrow> Inl e
           | Inr (out, cs) \<Rightarrow> Inr \<lparr>response = out, chunks = cs, mode = m\<rparr>)) \<and>
     (map_of kvs ''mode'' = None \<longrightarrow> m = JString ''hybrid'') \<and>
     (\<forall>r. query bp hp (JObject kvs) = Inr r \<longrightarrow> mode r = m)"
  using assms
  by (auto simp add: query_def select_pipeline_def dict_get_def Let_def
           split: sum.splits prod.splits option.splits)

theorem query_mode_selection_witness:
  "query baseline_example hybrid_example (JObject body_typo) =
     Inr \<lparr>response = ''baseline answer'', chunks = [], mode = JString ''hybird''\<rparr> \<and>
   map_of body_no_mode ''mode'' = None \<and>
   query baseline_example hybrid_example (JObject body_no_mode) =
     Inr \<lparr>response = ''hybrid answer'', chunks = [JNull], mode = JString ''hybrid''\<rparr>"
proof -
  have t: "dict_get body_typo ''mode'' (JString ''hybrid'') = JString ''hybird''"
    and n: "map_of body_no_mode ''mode'' = None"
    and d: "dict_get body_no_mode ''mode'' (JString ''hybrid'') = JString ''hybrid''"
    by (simp_all add: dict_get_def body_typo_def body_no_mode_def)
  have "query baseline_example hybrid_example (JObject body_typo) =
     Inr \<lparr>response = ''baseline answer'', chunks = [], mode = JString ''hybird''\<rparr>"
    using query_mode_selection [OF t [symmetric] refl refl, of baseline_example hybrid_example]
    by (simp add: baseline_example_def)
  moreover have "query baseline_example hybrid_example (JObject body_no_mode) =
     Inr \<lparr>response = ''hybrid answer'', chunks = [JNull], mode = JString ''hybrid''\<rparr>"
    using query_mode_selection [OF d [symmetric] refl refl, of baseline_example hybrid_example]
    by (simp add: hybrid_example_def)
  ultimately show ?thesis using n by simp
qed


section \<open>embed\_sparse: the retry policy\<close>

lemma retry_loop_Cons:
  "retry_loop pc req mr (attempt # rest) d result st =
     (case pc (calls st) req of
        Inr r \<Rightarrow> (Inr (Some r), st\<lparr>calls := calls st + 1, trace := trace st @ [Embed req]\<rparr>)
      | Inl e \<Rightarrow>
          if retryable e \<and> attempt < mr - 1 then
            (case time_sleep d (st\<lparr>calls := calls st + 1, trace := trace st @ [Embed req]\<rparr>) of
               Inl e' \<Rightarrow> (Inl e', st\<lparr>calls := calls st + 1, trace := trace st @ [Embed req]\<rparr>)
             | Inr st2 \<Rightarrow> retry_loop pc req mr rest (d * 2) result st2)
          else (Inl e, st\<lparr>calls := calls st + 1, trace := trace st @ [Embed req]\<rparr>))"
  by (simp add: retryable_def Let_def split: sum.splits error.splits)





lemmas eval_embed =
  embed_sparse_def range_step_def item_embedding_def time_sleep_def retryable_def
  default_text_col_def default_embed_model_def default_batch_size_def
  default_requests_per_minute_def state0_def table_example_def request_example_def
  item_for_def pc_ok_def pc_server_error_def pc_rate_limited_def pc_flaky_def Let_def





section \<open>embed\_sparse: one record per text\<close>

lemma append_items_map: "append_items r acc = acc @ map item_embedding r"
  by (induction r arbitrary: acc) simp_all

lemma item_embedding_indices: "indices (item_embedding item) \<noteq> []"
  by (simp add: item_embedding_def Let_def)

text \<open>A loop whose last attempt is the last permitted one ends with a fresh result or raises.\<close>

lemma retry_loop_result:
  assumes "retry_loop pc req mr attempts d result st = (Inr x, st')"
    and "attempts \<noteq> []" and "mr - 1 \<le> last attempts"
  shows "\<exists>n r. x = Some r \<and> pc n req = Inr r"
  using assms
proof (induction attempts arbitrary: d st)
  case Nil
  then show ?case by simp
next
  case (Cons attempt rest)
  show ?case
  proof (cases "pc (calls st) req")
    case (Inr r)
    then show ?thesis using Cons.prems(1) unfolding retry_loop_Cons by auto
  next
    case (Inl e)
    show ?thesis
    proof (cases "retryable e \<and> attempt < mr - 1")
      case False
      then show ?thesis using Inl Cons.prems(1) unfolding retry_loop_Cons by auto
    next
      case True
      then have ne: "rest \<noteq> []" using Cons.prems(3) by auto
      then have la: "mr - 1 \<le> last rest" using Cons.prems(3) by simp
      from Cons.prems(1) Inl True obtain st2 where
        "retry_loop pc req mr rest (d * 2) result st2 = (Inr x, st')"
        unfolding retry_loop_Cons by (auto split: sum.splits)
      then show ?thesis using Cons.IH ne la by blast
    qed
  qed
qed

lemma retry_loop_batch_result:
  assumes "retry_loop pc req 5 [0..<5] d result st = (Inr x, st')"
  shows "\<exists>n r. x = Some r \<and> pc n req = Inr r"
  using retry_loop_result [OF assms] by simp

lemma record_for_map:
  "list_all2 E ts r \<Longrightarrow> list_all2 (record_for E) ts (map item_embedding r)"
  unfolding list_all2_map2
  by (erule list_all2_mono) (auto simp add: record_for_def item_embedding_def Let_def)

lemma record_for_indices: "record_for E t rec \<Longrightarrow> indices rec \<noteq> []"
  by (auto simp add: record_for_def split: if_splits)

lemma batch_loop_records:
  assumes "\<forall>n req r. pc n req = Inr r \<longrightarrow> list_all2 E (inputs req) r"
    and "batch_loop pc mdl xs b dl starts result acc st = (Inr res, st')"
  shows "\<exists>new. res = acc @ new \<and>
     list_all2 (record_for E) (concat (map (\<lambda>i. take b (drop i xs)) starts)) new"
  using assms(2)
proof (induction starts arbitrary: result acc st)
  case Nil
  then show ?case by simp
next
  case (Cons i starts)
  let ?req = "\<lparr>embed_model = mdl, inputs = take b (drop i xs),
                parameters = [(''input_type'', ''passage''), (''truncate'', ''END'')]\<rparr>"
  obtain y st1 where rl: "retry_loop pc ?req 5 [0..<5] 1 result st = (y, st1)"
    by (cases "retry_loop pc ?req 5 [0..<5] 1 result st") auto
  from Cons.prems rl obtain x where y: "y = Inr x"
    by (cases y) (auto simp add: Let_def)
  from retry_loop_batch_result [OF rl [unfolded y]] obtain n r where
    x: "x = Some r" and pr: "pc n ?req = Inr r" by blast
  from assms(1) pr have E: "list_all2 E (take b (drop i xs)) r" by fastforce
  from Cons.prems rl y x obtain st2 where
    rec: "batch_loop pc mdl xs b dl starts (Some r) (append_items r acc) st2 = (Inr res, st')"
    by (auto simp add: Let_def split: sum.splits)
  from Cons.IH [OF rec] obtain new where
    new: "res = append_items r acc @ new"
      "list_all2 (record_for E) (concat (map (\<lambda>i. take b (drop i xs)) starts)) new"
    by blast
  have "list_all2 (record_for E) (take b (drop i xs)) (map item_embedding r)"
    using E by (rule record_for_map)
  with new show ?case
    by (auto simp add: append_items_map intro!: list_all2_appendI)
qed

lemma concat_batches_take:
  "concat (map (\<lambda>i. take b (drop i xs)) (map (\<lambda>j. j * b) [0..<m])) = take (m * b) xs"
proof (induction m)
  case 0
  then show ?case by simp
next
  case (Suc m)
  have "take (m * b + b) xs = take (m * b) xs @ take b (drop (m * b) xs)"
    by (simp add: take_add)
  then show ?case using Suc by (simp add: add.commute)
qed

lemma batches_cover:
  assumes "0 < b"
  shows "concat (map (\<lambda>i. take b (drop i xs))
           (map (\<lambda>j. j * b) [0..<(length xs + b - 1) div b])) = xs"
proof -
  have "length xs + b - 1 < b + (length xs + b - 1) div b * b"
    using assms dividend_less_div_times by blast
  then have "length xs \<le> (length xs + b - 1) div b * b" by simp
  then show ?thesis unfolding concat_batches_take by simp
qed

lemma batch_loop_returns:
  assumes "\<forall>n req. \<exists>r. pc n req = Inr r" and "0 \<le> dl"
  shows "\<exists>res st'. batch_loop pc mdl xs b dl starts result acc st = (Inr res, st')"
proof (induction starts arbitrary: result acc st)
  case Nil
  then show ?case by simp
next
  case (Cons i starts)
  let ?req = "\<lparr>embed_model = mdl, inputs = take b (drop i xs),
                parameters = [(''input_type'', ''passage''), (''truncate'', ''END'')]\<rparr>"
  from assms(1) obtain r where r: "pc (calls st) ?req = Inr r" by blast
  have l: "[0..<5] = 0 # [1..<5]" by (simp add: upt_rec)
  have rl: "retry_loop pc ?req 5 [0..<5] 1 result st =
      (Inr (Some r), st\<lparr>calls := calls st + 1, trace := trace st @ [Embed ?req]\<rparr>)"
    unfolding l retry_loop_Cons using r by simp
  show ?case
    using rl assms(2) Cons.IH by (simp add: Let_def time_sleep_def)
qed

lemma embed_sparse_unfold:
  assumes "df text_col = Some texts" and "0 < batch_size" and "0 < requests_per_minute"
  shows "embed_sparse pc df text_col mdl batch_size requests_per_minute st =
     batch_loop pc mdl texts (nat batch_size) (60 / real_of_int requests_per_minute)
       (map (\<lambda>j. j * nat batch_size)
          [0..<(length texts + nat batch_size - 1) div nat batch_size])
       None [] st"
  using assms by (simp add: embed_sparse_def range_step_def)

text \<open>
  C2: for a table whose text column holds the texts, a positive batch size and a
  positive request rate, and a provider whose every reply pairs one item with each input
  of the request, in order: a run that returns, returns one record per text, in the order
  of the texts, each the placeholder when its item has no indices and the item's own
  indices and values otherwise, so no record has empty indices; and the run returns
  whenever no call of the provider fails.
\<close>

theorem embed_sparse_records:
  assumes "df text_col = Some texts" and "0 < batch_size" and "0 < requests_per_minute"
    and "\<forall>n req r. pc n req = Inr r \<longrightarrow> list_all2 E (inputs req) r"
  shows "(\<forall>res st'.
            embed_sparse pc df text_col mdl batch_size requests_per_minute st = (Inr res, st') \<longrightarrow>
            length res = length texts \<and> list_all2 (record_for E) texts res \<and>
            (\<forall>rec\<in>set res. indices rec \<noteq> [])) \<and>
         ((\<forall>n req. \<exists>r. pc n req = Inr r) \<longrightarrow>
            (\<exists>res st'.
               embed_sparse pc df text_col mdl batch_size requests_per_minute st = (Inr res, st')))"
proof (intro conjI allI impI)
  note unf = embed_sparse_unfold
    [where df = df and text_col = text_col and texts = texts and batch_size = batch_size
       and requests_per_minute = requests_per_minute and pc = pc and mdl = mdl and st = st,
     OF assms(1-3)]
  fix res st'
  assume run: "embed_sparse pc df text_col mdl batch_size requests_per_minute st = (Inr res, st')"
  have b: "0 < nat batch_size" using assms(2) by simp
  from run have "batch_loop pc mdl texts (nat batch_size) (60 / real_of_int requests_per_minute)
       (map (\<lambda>j. j * nat batch_size)
          [0..<(length texts + nat batch_size - 1) div nat batch_size])
       None [] st = (Inr res, st')"
    unfolding unf .
  from batch_loop_records [OF assms(4) this]
  have all: "list_all2 (record_for E) texts res"
    unfolding batches_cover [OF b] by simp
  then show "length res = length texts"
    by (simp add: list_all2_lengthD)
  show "list_all2 (record_for E) texts res" by (rule all)
  show "\<forall>rec\<in>set res. indices rec \<noteq> []"
  proof
    fix rec assume "rec \<in> set res"
    then obtain i where "i < length res" "rec = res ! i"
      by (auto simp add: in_set_conv_nth)
    with all have "record_for E (texts ! i) rec"
      by (simp add: list_all2_conv_all_nth)
    then show "indices rec \<noteq> []" by (rule record_for_indices)
  qed
next
  note unf = embed_sparse_unfold
    [where df = df and text_col = text_col and texts = texts and batch_size = batch_size
       and requests_per_minute = requests_per_minute and pc = pc and mdl = mdl and st = st,
     OF assms(1-3)]
  assume ok: "\<forall>n req. \<exists>r. pc n req = Inr r"
  have "0 \<le> 60 / real_of_int requests_per_minute" using assms(3) by simp
  from batch_loop_returns [OF ok this]
  show "\<exists>res st'.
      embed_sparse pc df text_col mdl batch_size requests_per_minute st = (Inr res, st')"
    unfolding unf by blast
qed

theorem embed_sparse_records_witness:
  "table_example default_text_col = Some [''alpha'', [], ''gamma''] \<and>
   (0::int) < 2 \<and> 0 < default_requests_per_minute \<and>
   fst (embed_sparse pc_flaky table_example default_text_col default_embed_model 2
          default_requests_per_minute state0) =
     Inr [\<lparr>indices = [5], vals = [0.5]\<rparr>, \<lparr>indices = [0], vals = [0.001]\<rparr>,
          \<lparr>indices = [5], vals = [0.5]\<rparr>] \<and>
   length [\<lparr>indices = [5], vals = [0.5]\<rparr>, \<lparr>indices = [0], vals = [0.001]\<rparr>,
           \<lparr>indices = [5], vals = [0.5::real]\<rparr>] = length [''alpha'', [], ''gamma''] \<and>
   list_all2 (record_for embeds_example) [''alpha'', [], ''gamma'']
     [\<lparr>indices = [5], vals = [0.5]\<rparr>, \<lparr>indices = [0], vals = [0.001]\<rparr>,
      \<lparr>indices = [5], vals = [0.5]\<rparr>] \<and>
   (\<forall>n req. \<exists>r. pc_ok n req = Inr r) \<and>
   (\<exists>res st'. embed_sparse pc_ok table_example default_text_col default_embed_model 2
          default_requests_per_minute state0 = (Inr res, st'))"
proof -
  have col: "table_example default_text_col = Some [''alpha'', [], ''gamma'']"
    by (simp add: table_example_def default_text_col_def)
  have bs: "(0::int) < 2" and rpm: "0 < default_requests_per_minute"
    by (simp_all add: default_requests_per_minute_def)
  have wf: "\<forall>n req r. pc_flaky n req = Inr r \<longrightarrow> list_all2 embeds_example (inputs req) r"
    by (auto simp add: pc_flaky_def embeds_example_def list_all2_map2 intro: list_all2_refl)
  have run: "embed_sparse pc_flaky table_example default_text_col default_embed_model 2
          default_requests_per_minute state0 =
     (Inr [\<lparr>indices = [5], vals = [0.5]\<rparr>, \<lparr>indices = [0], vals = [0.001]\<rparr>,
           \<lparr>indices = [5], vals = [0.5]\<rparr>],
      snd (embed_sparse pc_flaky table_example default_text_col default_embed_model 2
          default_requests_per_minute state0))"
    by (simp add: eval_embed upt_rec)
  have wf': "\<forall>n req r. pc_ok n req = Inr r \<longrightarrow> list_all2 embeds_example (inputs req) r"
    by (auto simp add: pc_ok_def embeds_example_def list_all2_map2 intro: list_all2_refl)
  have ok: "\<forall>n req. \<exists>r. pc_ok n req = Inr r"
    by (simp add: pc_ok_def)
  have ex: "\<exists>res st'. embed_sparse pc_ok table_example default_text_col default_embed_model 2
          default_requests_per_minute state0 = (Inr res, st')"
    using ok embed_sparse_records
        [where df = table_example and text_col = default_text_col
           and texts = "[''alpha'', [], ''gamma'']" and batch_size = 2
           and requests_per_minute = default_requests_per_minute and pc = pc_ok
           and E = embeds_example and mdl = default_embed_model and st = state0,
         OF col bs rpm wf']
    by blast
  show ?thesis
    using col bs rpm run ok ex
      embed_sparse_records
        [where df = table_example and text_col = default_text_col
           and texts = "[''alpha'', [], ''gamma'']" and batch_size = 2
           and requests_per_minute = default_requests_per_minute and pc = pc_flaky
           and E = embeds_example and mdl = default_embed_model and st = state0,
         OF col bs rpm wf]
    by (metis fst_conv)
qed


section \<open>The loader: sources, order and missing files\<close>

lemma is_local_chars:
  "is_local bucket \<longleftrightarrow> (\<exists>c cs. bucket = c # cs \<and> c \<in> {CHR ''/'', CHR ''.'', CHR ''~''})"
  by (cases bucket) (auto simp add: is_local_def startswith_any_def startswith_def)

text \<open>The listing loop on pages that all carry \<open>Contents\<close>: the keys that end in the extension.\<close>

lemma list_loop_listing:
  assumes "listing env region bucket prefix' tok pages"
    and "\<forall>p\<in>set pages. Contents p \<noteq> None"
  shows "list_loop env region bucket prefix' tok acc = Some (Inr (acc @ parquet_keys pages))"
  using assms
proof (induction arbitrary: acc rule: listing.induct)
  case (last_page env region bucket prefix' tok resp)
  then show ?case
    by (subst list_loop.simps) (auto simp add: parquet_keys_def page_keys_def Let_def)
next
  case (next_page env region bucket prefix' tok resp pages)
  then show ?case
    by (subst list_loop.simps) (auto simp add: parquet_keys_def page_keys_def Let_def)
qed

text \<open>The listing loop raises at the first page without \<open>Contents\<close>.\<close>

lemma list_loop_no_contents:
  assumes "listing env region bucket prefix' tok pages"
    and "\<exists>p\<in>set pages. Contents p = None"
  shows "list_loop env region bucket prefix' tok acc =
     Some (Inl (FileNotFoundError
       (''No parquet files found in S3://'' @ bucket @ ''/'' @ str_opt prefix')))"
  using assms
proof (induction arbitrary: acc rule: listing.induct)
  case (last_page env region bucket prefix' tok resp)
  then show ?case
    by (subst list_loop.simps) (auto simp add: Let_def)
next
  case (next_page env region bucket prefix' tok resp pages)
  show ?case
  proof (cases "Contents resp")
    case None
    then show ?thesis using next_page.hyps(1)
      by (subst list_loop.simps) (simp add: Let_def)
  next
    case (Some objs)
    then have "\<exists>p\<in>set pages. Contents p = None" using next_page.prems by auto
    from next_page.IH [OF this] show ?thesis using Some next_page.hyps(1,2)
      by (subst list_loop.simps) (simp add: Let_def)
  qed
qed

lemma read_all_ok:
  assumes "list_all2 (\<lambda>f t. read_parquet env f = Inr t) fs ts"
  shows "read_all env fs = Inr ts"
  using assms
proof (induction fs arbitrary: ts)
  case Nil
  then show ?case by simp
next
  case (Cons f fs)
  from Cons.prems obtain t ts' where ts: "ts = t # ts'"
    and t: "read_parquet env f = Inr t"
    and r: "list_all2 (\<lambda>f t. read_parquet env f = Inr t) fs ts'"
    by (cases ts) auto
  from Cons.IH [OF r] t ts show ?case by simp
qed

lemma fetch_all_ok:
  assumes "list_all2 (\<lambda>k t. \<exists>body. get_object env region bucket k = Inr body \<and>
             read_parquet_bytes env body = Inr t) keys ts"
  shows "fetch_all env region bucket keys dfs = Inr (dfs @ ts)"
  using assms
proof (induction keys arbitrary: ts dfs)
  case Nil
  then show ?case by simp
next
  case (Cons k keys)
  from Cons.prems obtain t ts' body where ts: "ts = t # ts'"
    and g: "get_object env region bucket k = Inr body"
    and p: "read_parquet_bytes env body = Inr t"
    and r: "list_all2 (\<lambda>k t. \<exists>body. get_object env region bucket k = Inr body \<and>
             read_parquet_bytes env body = Inr t) keys ts'"
    by (cases ts) auto
  from Cons.IH [OF r, of "dfs @ [t]"] g p ts show ?case by simp
qed

lemma load_local_mode_b:
  assumes "is_local bucket" and "\<not> truthy single_key"
  shows "load_parquet_from_s3 env bucket prefix' single_key region =
     (let parquet_files =
            glob_recursive env (os_path_join (local_base env bucket prefix') [''**'', ''*.parquet''])
      in if parquet_files = [] then
           Some (Inl (FileNotFoundError
             (''No parquet files found in '' @ local_base env bucket prefix')))
         else
           (case read_all env (sort parquet_files) of
              Inl e \<Rightarrow> Some (Inl e)
            | Inr ts \<Rightarrow> Some (pl_concat env ts)))"
  using assms by (simp add: load_parquet_from_s3_def local_base_def Let_def)

lemma load_remote_mode_b:
  assumes "\<not> is_local bucket" and "\<not> truthy single_key"
  shows "load_parquet_from_s3 env bucket prefix' single_key region =
     (case list_loop env region bucket prefix' None [] of
        None \<Rightarrow> None
      | Some (Inl e) \<Rightarrow> Some (Inl e)
      | Some (Inr parquet_files) \<Rightarrow>
          if parquet_files = [] then
            Some (Inl (FileNotFoundError
              (''No parquet files found in S3://'' @ bucket @ ''/'' @ str_opt prefix')))
          else
            (case fetch_all env region bucket parquet_files [] of
               Inl e \<Rightarrow> Some (Inl e)
             | Inr dfs \<Rightarrow> Some (pl_concat env dfs)))"
  using assms by (simp add: load_parquet_from_s3_def)

lemma listing_corpus:
  "listing storage_example ''us-east-1'' ''corpus'' None None [page_one, page_two]"
proof (rule next_page)
  show "list_objects_v2 storage_example ''us-east-1''
      \<lparr>Bucket = ''corpus'', Prefix = (if truthy None then None else None),
       ContinuationToken = (if truthy None then None else None)\<rparr> = Inr page_one"
    by (simp add: storage_example_def)
  show "IsTruncated page_one = Some True" by (simp add: page_one_def)
  show "listing storage_example ''us-east-1'' ''corpus'' None (NextContinuationToken page_one)
      [page_two]"
  proof (rule last_page)
    show "list_objects_v2 storage_example ''us-east-1''
        \<lparr>Bucket = ''corpus'', Prefix = (if truthy None then None else None),
         ContinuationToken = (if truthy (NextContinuationToken page_one)
                              then NextContinuationToken page_one else None)\<rparr> = Inr page_two"
      by (simp add: storage_example_def page_one_def truthy_def)
    show "IsTruncated page_two \<noteq> Some True" by (simp add: page_two_def)
  qed
qed

lemma listing_logs:
  "listing storage_example ''us-east-1'' ''logs'' None None [page_logs]"
  by (rule last_page) (simp_all add: storage_example_def page_logs_def)

text \<open>
  C6: without a single key, a local location whose recursive search for
  \<open>**/*.parquet\<close> under the base finds nothing, and a bucket whose listing ends without a
  key that ends in \<open>.parquet\<close>, both make the loader raise \<open>FileNotFoundError\<close>.
\<close>

theorem load_not_found:
  assumes "\<not> truthy single_key"
  shows "(is_local bucket \<and>
          glob_recursive env
            (os_path_join (local_base env bucket prefix') [''**'', ''*.parquet'']) = [] \<longrightarrow>
          load_parquet_from_s3 env bucket prefix' single_key region =
            Some (Inl (FileNotFoundError
              (''No parquet files found in '' @ local_base env bucket prefix')))) \<and>
         (\<not> is_local bucket \<and> listing env region bucket prefix' None pages \<and>
          (\<forall>p\<in>set pages. \<forall>key\<in>set (page_keys p). \<not> endswith key ''.parquet'') \<longrightarrow>
          load_parquet_from_s3 env bucket prefix' single_key region =
            Some (Inl (FileNotFoundError
              (''No parquet files found in S3://'' @ bucket @ ''/'' @ str_opt prefix'))))"
proof (intro conjI impI)
  assume "is_local bucket \<and>
    glob_recursive env (os_path_join (local_base env bucket prefix') [''**'', ''*.parquet'']) = []"
  then show "load_parquet_from_s3 env bucket prefix' single_key region =
      Some (Inl (FileNotFoundError (''No parquet files found in '' @ local_base env bucket prefix')))"
    using assms by (simp add: load_local_mode_b)
next
  assume h: "\<not> is_local bucket \<and> listing env region bucket prefix' None pages \<and>
    (\<forall>p\<in>set pages. \<forall>key\<in>set (page_keys p). \<not> endswith key ''.parquet'')"
  then have none: "parquet_keys pages = []"
    by (auto simp add: parquet_keys_def filter_empty_conv)
  show "load_parquet_from_s3 env bucket prefix' single_key region =
      Some (Inl (FileNotFoundError
        (''No parquet files found in S3://'' @ bucket @ ''/'' @ str_opt prefix')))"
  proof (cases "\<forall>p\<in>set pages. Contents p \<noteq> None")
    case True
    with h have "list_loop env region bucket prefix' None [] = Some (Inr (parquet_keys pages))"
      using list_loop_listing [of env region bucket prefix' None pages "[]"] by simp
    then show ?thesis using h assms none by (simp add: load_remote_mode_b)
  next
    case False
    with h have "list_loop env region bucket prefix' None [] =
        Some (Inl (FileNotFoundError
          (''No parquet files found in S3://'' @ bucket @ ''/'' @ str_opt prefix')))"
      using list_loop_no_contents [of env region bucket prefix' None pages "[]"] by simp
    then show ?thesis using h assms by (simp add: load_remote_mode_b)
  qed
qed

theorem load_not_found_witness:
  "\<not> truthy None \<and> is_local ''/data'' \<and>
   glob_recursive storage_example
     (os_path_join (local_base storage_example ''/data'' (Some ''missing/'')) [''**'', ''*.parquet'']) = [] \<and>
   load_parquet_from_s3 storage_example ''/data'' (Some ''missing/'') None ''us-east-1'' =
     Some (Inl (FileNotFoundError ''No parquet files found in /data/missing/'')) \<and>
   \<not> is_local ''logs'' \<and>
   listing storage_example ''us-east-1'' ''logs'' None None [page_logs] \<and>
   load_parquet_from_s3 storage_example ''logs'' None None ''us-east-1'' =
     Some (Inl (FileNotFoundError ''No parquet files found in S3://logs/None''))"
proof -
  have k: "\<not> truthy None" by (simp add: truthy_def)
  have l: "is_local ''/data''" and r: "\<not> is_local ''logs''"
    by (simp_all add: is_local_def startswith_any_def startswith_def)
  have b: "local_base storage_example ''/data'' (Some ''missing/'') = ''/data/missing/''"
    by (simp add: local_base_def truthy_def str_opt_def storage_example_def startswith_def
        endswith_def suffix_to_prefix os_path_join.simps)
  have g: "glob_recursive storage_example
     (os_path_join (local_base storage_example ''/data'' (Some ''missing/'')) [''**'', ''*.parquet'']) = []"
    unfolding b
    by (simp add: storage_example_def startswith_def endswith_def suffix_to_prefix
        os_path_join.simps)
  have n: "\<forall>p\<in>set [page_logs]. \<forall>key\<in>set (page_keys p). \<not> endswith key ''.parquet''"
    by (simp add: page_logs_def page_keys_def endswith_def suffix_to_prefix)
  have "load_parquet_from_s3 storage_example ''/data'' (Some ''missing/'') None ''us-east-1'' =
     Some (Inl (FileNotFoundError ''No parquet files found in /data/missing/''))"
    using load_not_found [OF k, of "''/data''" storage_example "Some ''missing/''"] l g b by simp
  moreover have "load_parquet_from_s3 storage_example ''logs'' None None ''us-east-1'' =
     Some (Inl (FileNotFoundError ''No parquet files found in S3://logs/None''))"
    using load_not_found [OF k, of "''logs''" storage_example None "''us-east-1''" "[page_logs]"]
      r listing_logs n
    by (simp add: str_opt_def)
  ultimately show ?thesis using k l r g listing_logs by simp
qed

text \<open>
  The order of Mode B, relative to the search and the listing. A location is local exactly
  when it begins with \<open>/\<close>, \<open>.\<close> or \<open>~\<close>. Without a single key, a local location
  gives the concatenation of the tables of the paths that the recursive search returns,
  read in sorted order; a remote location gives the concatenation of the tables of the keys
  that end in \<open>.parquet\<close>, in the order of the listing, over all pages reached by
  following the continuation tokens until a page is not truncated.
\<close>

lemma load_mode_b_order:
  assumes "\<not> truthy single_key"
  shows "(is_local bucket \<longleftrightarrow>
            (\<exists>c cs. bucket = c # cs \<and> c \<in> {CHR ''/'', CHR ''.'', CHR ''~''})) \<and>
         (is_local bucket \<and>
          files = glob_recursive env
                    (os_path_join (local_base env bucket prefix') [''**'', ''*.parquet'']) \<and>
          files \<noteq> [] \<and> sorted fs \<and> mset fs = mset files \<and>
          list_all2 (\<lambda>f t. read_parquet env f = Inr t) fs ts \<longrightarrow>
          load_parquet_from_s3 env bucket prefix' single_key region = Some (pl_concat env ts)) \<and>
         (\<not> is_local bucket \<and> listing env region bucket prefix' None pages \<and>
          (\<forall>p\<in>set pages. Contents p \<noteq> None) \<and> parquet_keys pages \<noteq> [] \<and>
          list_all2 (\<lambda>key t. \<exists>body. get_object env region bucket key = Inr body \<and>
                       read_parquet_bytes env body = Inr t) (parquet_keys pages) ts' \<longrightarrow>
          load_parquet_from_s3 env bucket prefix' single_key region = Some (pl_concat env ts'))"
proof (intro conjI impI)
  show "is_local bucket \<longleftrightarrow>
      (\<exists>c cs. bucket = c # cs \<and> c \<in> {CHR ''/'', CHR ''.'', CHR ''~''})"
    by (rule is_local_chars)
next
  assume h: "is_local bucket \<and>
    files = glob_recursive env
              (os_path_join (local_base env bucket prefix') [''**'', ''*.parquet'']) \<and>
    files \<noteq> [] \<and> sorted fs \<and> mset fs = mset files \<and>
    list_all2 (\<lambda>f t. read_parquet env f = Inr t) fs ts"
  then have loc: "is_local bucket"
    and fl: "glob_recursive env
        (os_path_join (local_base env bucket prefix') [''**'', ''*.parquet'']) = files"
    and ne: "files \<noteq> []" and so: "sorted fs" and ms: "mset fs = mset files"
    and rd: "list_all2 (\<lambda>f t. read_parquet env f = Inr t) fs ts"
    by blast+
  from so ms have s: "sort files = fs"
    by (simp add: properties_for_sort)
  from rd have ra: "read_all env fs = Inr ts"
    by (rule read_all_ok)
  show "load_parquet_from_s3 env bucket prefix' single_key region = Some (pl_concat env ts)"
    unfolding load_local_mode_b [OF loc assms] fl Let_def s using ne ra by simp
next
  assume h: "\<not> is_local bucket \<and> listing env region bucket prefix' None pages \<and>
    (\<forall>p\<in>set pages. Contents p \<noteq> None) \<and> parquet_keys pages \<noteq> [] \<and>
    list_all2 (\<lambda>key t. \<exists>body. get_object env region bucket key = Inr body \<and>
                 read_parquet_bytes env body = Inr t) (parquet_keys pages) ts'"
  then have l: "list_loop env region bucket prefix' None [] = Some (Inr (parquet_keys pages))"
    using list_loop_listing [of env region bucket prefix' None pages "[]"] by simp
  from h have f: "fetch_all env region bucket (parquet_keys pages) [] = Inr ts'"
    using fetch_all_ok [of env region bucket "parquet_keys pages" ts' "[]"] by simp
  from h l f show "load_parquet_from_s3 env bucket prefix' single_key region =
      Some (pl_concat env ts')"
    using assms by (simp add: load_remote_mode_b)
qed

lemma load_mode_b_order_example:
  "\<not> truthy None \<and> is_local ''/data'' \<and> is_local ''./data'' \<and> is_local ''~/data'' \<and>
   \<not> is_local ''corpus'' \<and>
   glob_recursive storage_example
     (os_path_join (local_base storage_example ''/data'' (Some ''chunks'')) [''**'', ''*.parquet'']) =
     [''/data/chunks/b.parquet'', ''/data/chunks/a/x.parquet''] \<and>
   sorted [''/data/chunks/a/x.parquet'', ''/data/chunks/b.parquet''] \<and>
   load_parquet_from_s3 storage_example ''/data'' (Some ''chunks'') None ''us-east-1'' =
     Some (Inr [''row x1'', ''row b1'', ''row b2'']) \<and>
   listing storage_example ''us-east-1'' ''corpus'' None None [page_one, page_two] \<and>
   parquet_keys [page_one, page_two] = [''p/1.parquet'', ''p/2.parquet''] \<and>
   load_parquet_from_s3 storage_example ''corpus'' None None ''us-east-1'' =
     Some (Inr [''row of p/1.parquet'', ''row of p/2.parquet''])"
proof -
  have k: "\<not> truthy None" by (simp add: truthy_def)
  have l: "is_local ''/data''" "is_local ''./data''" "is_local ''~/data''"
    and r: "\<not> is_local ''corpus''"
    by (simp_all add: is_local_def startswith_any_def startswith_def)
  have b: "local_base storage_example ''/data'' (Some ''chunks'') = ''/data/chunks''"
    by (simp add: local_base_def truthy_def str_opt_def storage_example_def startswith_def
        endswith_def suffix_to_prefix os_path_join.simps)
  have g: "glob_recursive storage_example
     (os_path_join (local_base storage_example ''/data'' (Some ''chunks'')) [''**'', ''*.parquet'']) =
     [''/data/chunks/b.parquet'', ''/data/chunks/a/x.parquet'']"
    unfolding b
    by (simp add: storage_example_def startswith_def endswith_def suffix_to_prefix
        os_path_join.simps)
  have so: "sorted [''/data/chunks/a/x.parquet'', ''/data/chunks/b.parquet'']"
    by simp
  have ms: "mset [''/data/chunks/a/x.parquet'', ''/data/chunks/b.parquet''] =
      mset [''/data/chunks/b.parquet'', ''/data/chunks/a/x.parquet'']"
    by (simp add: add.commute)
  have rd: "list_all2 (\<lambda>f t. read_parquet storage_example f = Inr t)
      [''/data/chunks/a/x.parquet'', ''/data/chunks/b.parquet'']
      [[''row x1''], [''row b1'', ''row b2'']]"
    by (simp add: storage_example_def)
  have pk: "parquet_keys [page_one, page_two] = [''p/1.parquet'', ''p/2.parquet'']"
    by (simp add: parquet_keys_def page_keys_def page_one_def page_two_def endswith_def
        suffix_to_prefix)
  have ct: "\<forall>p\<in>set [page_one, page_two]. Contents p \<noteq> None"
    by (simp add: page_one_def page_two_def)
  have ft: "list_all2 (\<lambda>key t. \<exists>body. get_object storage_example ''us-east-1'' ''corpus'' key = Inr body \<and>
                 read_parquet_bytes storage_example body = Inr t)
      (parquet_keys [page_one, page_two]) [[''row of p/1.parquet''], [''row of p/2.parquet'']]"
    unfolding pk by (simp add: storage_example_def)
  have cc: "pl_concat storage_example [[''row x1''], [''row b1'', ''row b2'']] =
        Inr [''row x1'', ''row b1'', ''row b2'']"
      "pl_concat storage_example [[''row of p/1.parquet''], [''row of p/2.parquet'']] =
        Inr [''row of p/1.parquet'', ''row of p/2.parquet'']"
    by (simp_all add: storage_example_def)
  have "load_parquet_from_s3 storage_example ''/data'' (Some ''chunks'') None ''us-east-1'' =
     Some (Inr [''row x1'', ''row b1'', ''row b2''])"
    using load_mode_b_order
      [where single_key = None and bucket = "''/data''" and env = storage_example
         and prefix' = "Some ''chunks''" and region = "''us-east-1''"
         and files = "[''/data/chunks/b.parquet'', ''/data/chunks/a/x.parquet'']"
         and fs = "[''/data/chunks/a/x.parquet'', ''/data/chunks/b.parquet'']"
         and ts = "[[''row x1''], [''row b1'', ''row b2'']]", OF k]
      l(1) g so ms rd cc(1)
    by simp
  moreover have "load_parquet_from_s3 storage_example ''corpus'' None None ''us-east-1'' =
     Some (Inr [''row of p/1.parquet'', ''row of p/2.parquet''])"
    using load_mode_b_order
      [where single_key = None and bucket = "''corpus''" and env = storage_example
         and prefix' = None and region = "''us-east-1''" and pages = "[page_one, page_two]"
         and ts' = "[[''row of p/1.parquet''], [''row of p/2.parquet'']]", OF k]
      r listing_corpus ct ft cc(2) pk
    by simp
  ultimately show ?thesis using k l r g so listing_corpus pk by simp
qed

lemma listing_hidden:
  "listing storage_hidden ''us-east-1'' ''corpus'' (Some ''chunks/'') None [page_hidden]"
  by (rule last_page) (simp_all add: storage_hidden_def page_hidden_def)

text \<open>
  C7, at a local directory that holds a table whose name begins with a dot and a table in
  a directory whose name begins with a dot. Both files end in \<open>.parquet\<close>, lie under
  location and prefix and can be read, and the loader returns the rows of the third file
  only: the recursive search skips names that begin with a dot. The remote branch, on a
  bucket that lists the same three keys, returns the rows of all three.
\<close>

theorem load_local_skips_hidden_files:
  "endswith ''/data/chunks/.hidden.parquet'' ''.parquet'' \<and>
   startswith ''/data/chunks/.hidden.parquet'' ''/data/chunks/'' \<and>
   read_parquet storage_hidden ''/data/chunks/.hidden.parquet'' = Inr [''row h1''] \<and>
   endswith ''/data/chunks/.cache/c.parquet'' ''.parquet'' \<and>
   startswith ''/data/chunks/.cache/c.parquet'' ''/data/chunks/'' \<and>
   read_parquet storage_hidden ''/data/chunks/.cache/c.parquet'' = Inr [''row c1''] \<and>
   load_parquet_from_s3 storage_hidden ''/data'' (Some ''chunks'') None ''us-east-1'' =
     Some (Inr [''row b1'']) \<and>
   load_parquet_from_s3 storage_hidden ''corpus'' (Some ''chunks/'') None ''us-east-1'' =
     Some (Inr [''row of chunks/b.parquet'', ''row of chunks/.hidden.parquet'',
                ''row of chunks/.cache/c.parquet''])"
proof -
  have k: "\<not> truthy None" by (simp add: truthy_def)
  have l: "is_local ''/data''" and r: "\<not> is_local ''corpus''"
    by (simp_all add: is_local_def startswith_any_def startswith_def)
  have b: "local_base storage_hidden ''/data'' (Some ''chunks'') = ''/data/chunks''"
    by (simp add: local_base_def truthy_def str_opt_def storage_hidden_def startswith_def
        endswith_def suffix_to_prefix os_path_join.simps)
  have p: "os_path_join ''/data/chunks'' [''**'', ''*.parquet''] = ''/data/chunks/**/*.parquet''"
    by (simp add: startswith_def endswith_def suffix_to_prefix os_path_join.simps)
  have g: "glob_recursive storage_hidden ''/data/chunks/**/*.parquet'' = [''/data/chunks/b.parquet'']"
    by (simp add: storage_hidden_def py_glob_recursive_def glob_parquet_under_def disk_hidden_def
        is_hidden_def startswith_def endswith_def suffix_to_prefix)
  have rd: "read_all storage_hidden [''/data/chunks/b.parquet''] = Inr [[''row b1'']]"
    by (simp add: storage_hidden_def disk_hidden_def)
  have cc: "pl_concat storage_hidden [[''row b1'']] = Inr [''row b1'']"
    by (simp add: storage_hidden_def)
  have loc: "load_parquet_from_s3 storage_hidden ''/data'' (Some ''chunks'') None ''us-east-1'' =
     Some (Inr [''row b1''])"
    unfolding load_local_mode_b [OF l k] b p g Let_def using rd cc by simp
  have pk: "parquet_keys [page_hidden] =
      [''chunks/b.parquet'', ''chunks/.hidden.parquet'', ''chunks/.cache/c.parquet'']"
    by (simp add: parquet_keys_def page_keys_def page_hidden_def endswith_def suffix_to_prefix)
  have ct: "\<forall>p\<in>set [page_hidden]. Contents p \<noteq> None"
    by (simp add: page_hidden_def)
  have ll: "list_loop storage_hidden ''us-east-1'' ''corpus'' (Some ''chunks/'') None [] =
      Some (Inr [''chunks/b.parquet'', ''chunks/.hidden.parquet'', ''chunks/.cache/c.parquet''])"
    using list_loop_listing [OF listing_hidden ct, of "[]"] unfolding pk by simp
  have ft: "fetch_all storage_hidden ''us-east-1'' ''corpus''
      [''chunks/b.parquet'', ''chunks/.hidden.parquet'', ''chunks/.cache/c.parquet''] [] =
      Inr [[''row of chunks/b.parquet''], [''row of chunks/.hidden.parquet''],
           [''row of chunks/.cache/c.parquet'']]"
    by (simp add: storage_hidden_def)
  have cr: "pl_concat storage_hidden
      [[''row of chunks/b.parquet''], [''row of chunks/.hidden.parquet''],
       [''row of chunks/.cache/c.parquet'']] =
      Inr [''row of chunks/b.parquet'', ''row of chunks/.hidden.parquet'',
           ''row of chunks/.cache/c.parquet'']"
    by (simp add: storage_hidden_def)
  have rem: "load_parquet_from_s3 storage_hidden ''corpus'' (Some ''chunks/'') None ''us-east-1'' =
     Some (Inr [''row of chunks/b.parquet'', ''row of chunks/.hidden.parquet'',
                ''row of chunks/.cache/c.parquet''])"
    unfolding load_remote_mode_b [OF r k] ll using ft cr by simp
  have e: "endswith ''/data/chunks/.hidden.parquet'' ''.parquet''"
      "startswith ''/data/chunks/.hidden.parquet'' ''/data/chunks/''"
      "endswith ''/data/chunks/.cache/c.parquet'' ''.parquet''"
      "startswith ''/data/chunks/.cache/c.parquet'' ''/data/chunks/''"
    by (simp_all add: startswith_def endswith_def suffix_to_prefix)
  have rh: "read_parquet storage_hidden ''/data/chunks/.hidden.parquet'' = Inr [''row h1'']"
      "read_parquet storage_hidden ''/data/chunks/.cache/c.parquet'' = Inr [''row c1'']"
    by (simp_all add: storage_hidden_def disk_hidden_def)
  show ?thesis using e rh loc rem by simp
qed

end
